theory Spec2Isabelle
  imports
    Main
    "HOL-Library.Char_ord"
    "HOL-Library.List_Lexorder"
    "HOL-Library.Multiset"
    "HOL-Library.Sublist"
begin

section \<open>Python string operations used by \<^verbatim>\<open>generate_license_report.py\<close>\<close>

text \<open>
  Python strings are modelled as \<^typ>\<open>string\<close>. The model covers ASCII text: a character
  outside ASCII is left alone by \<open>lower\<close> and is never whitespace, whereas Python knows
  further Unicode case pairs and spaces.
\<close>

definition char_lower :: "char \<Rightarrow> char" where
  "char_lower c =
     (case map_of (zip ''ABCDEFGHIJKLMNOPQRSTUVWXYZ'' ''abcdefghijklmnopqrstuvwxyz'') c of
        Some d \<Rightarrow> d
      | None \<Rightarrow> c)"

text \<open>\<^verbatim>\<open>s.lower()\<close>\<close>

definition lower :: "string \<Rightarrow> string" where
  "lower s = map char_lower s"

text \<open>
  The ASCII characters for which \<^verbatim>\<open>str.isspace()\<close> holds: tab, line feed, vertical tab,
  form feed, carriage return, the four separators 0x1C to 0x1F, and the space.
\<close>

definition is_space :: "char \<Rightarrow> bool" where
  "is_space c =
     (c \<in> set [CHR 0x09, CHR 0x0A, CHR 0x0B, CHR 0x0C, CHR 0x0D,
                CHR 0x1C, CHR 0x1D, CHR 0x1E, CHR 0x1F, CHR 0x20])"

text \<open>\<^verbatim>\<open>s.strip()\<close>\<close>

definition strip :: "string \<Rightarrow> string" where
  "strip s = rev (dropWhile is_space (rev (dropWhile is_space s)))"

text \<open>\<^verbatim>\<open>s.startswith(p)\<close> and \<^verbatim>\<open>s.endswith(p)\<close>\<close>

definition startswith :: "string \<Rightarrow> string \<Rightarrow> bool" where
  "startswith s p = (take (length p) s = p)"

definition endswith :: "string \<Rightarrow> string \<Rightarrow> bool" where
  "endswith s p = startswith (rev s) (rev p)"

text \<open>\<^verbatim>\<open>sub in s\<close>: \<open>sub\<close> occurs in \<open>s\<close> as a contiguous run.\<close>

fun py_in :: "string \<Rightarrow> string \<Rightarrow> bool" where
  "py_in sub [] = (sub = [])"
| "py_in sub (c # cs) = (startswith (c # cs) sub \<or> py_in sub cs)"

section \<open>Attribution policy\<close>

definition attribution_required :: "string list" where
  "attribution_required =
     [''mit'', ''bsd'', ''apache'', ''isc'', ''mpl'', ''mozilla'',
      ''creative commons'', ''cc-by'']"

definition no_attribution :: "string list" where
  "no_attribution = [''public domain'', ''unlicense'', ''wtfpl'']"

text \<open>
  \<^verbatim>\<open>_requires_attribution\<close>: the two \<^verbatim>\<open>for\<close> loops return at the first list entry
  that occurs in the lowercased text; the last line is the default.
\<close>

definition requires_attribution :: "string \<Rightarrow> bool" where
  "requires_attribution license_text =
     (let license_lower = lower license_text in
      if list_ex (\<lambda>license_type. py_in license_type license_lower) no_attribution
        then False
      else if list_ex (\<lambda>license_type. py_in license_type license_lower) attribution_required
        then True
      else True)"

section \<open>Dependencies and the filter\<close>

text \<open>
  \<^verbatim>\<open>class DependencyInfo\<close>. The group \<open>dep_type\<close> is a free string in the source
  ("runtime", "dev", "optional", "build"); the constructor trims the name and the version
  constraint.
\<close>

record dependency_info =
  name :: string
  version_spec :: string
  dep_type :: string

definition DependencyInfo :: "string \<Rightarrow> string \<Rightarrow> string \<Rightarrow> dependency_info" where
  "DependencyInfo n v t = \<lparr>name = strip n, version_spec = strip v, dep_type = t\<rparr>"

text \<open>The three fixed sets of \<^verbatim>\<open>LicenseReporter.__init__\<close>.\<close>

definition build_time_packages :: "string list" where
  "build_time_packages =
     [''pip'', ''setuptools'', ''wheel'', ''build'', ''twine'', ''virtualenv'', ''venv'',
      ''pyinstaller'', ''pytest'', ''mypy'', ''black'', ''flake8'', ''isort'', ''coverage'',
      ''tox'', ''pre-commit'', ''sphinx'', ''mkdocs'', ''jupyter'', ''notebook'',
      ''ipython'', ''ipykernel'', ''conda'', ''mamba'', ''poetry'', ''pipenv'', ''flit'',
      ''hatch'', ''pdm'', ''bandit'', ''safety'', ''autopep8'', ''yapf'', ''pylint'',
      ''pydocstyle'', ''pycodestyle'', ''pyflakes'', ''mccabe'']"

definition type_stub_packages :: "string list" where
  "type_stub_packages = [''types-'', ''typing-extensions'', ''mypy-extensions'', ''stub-'']"

definition test_packages :: "string list" where
  "test_packages =
     [''pytest'', ''unittest2'', ''nose'', ''nose2'', ''testtools'', ''mock'',
      ''pytest-cov'', ''pytest-xdist'', ''pytest-mock'', ''factory-boy'',
      ''faker'', ''hypothesis'', ''tox'', ''coverage'', ''codecov'']"

subsection \<open>Exclude patterns\<close>

text \<open>\<^verbatim>\<open>s.replace(old, new)\<close> for an \<open>old\<close> of one character, as both calls have it.\<close>

definition replace :: "string \<Rightarrow> char \<Rightarrow> string \<Rightarrow> string" where
  "replace s old new = concat (map (\<lambda>c. if c = old then new else [c]) s)"

text \<open>
  \<^verbatim>\<open>_matches_pattern\<close> hands the rewritten pattern to Python's \<^verbatim>\<open>re.match\<close> with
  \<^verbatim>\<open>re.IGNORECASE\<close>. The model reads the fragment of the regular-expression syntax that
  the rewriting can produce from a pattern free of the characters
  \<^verbatim>\<open>\ [ ] ( ) { } + |\<close>: a dot (any character but a line feed), a dot followed by a
  star (any run of such characters), the anchors \<^verbatim>\<open>^\<close> (start of the text) and
  \<^verbatim>\<open>$\<close> (end of the text, or just before a line feed that ends it), and every other
  character for itself, compared without case. On any other regular expression
  \<open>re_parse\<close> answers \<open>None\<close>: there Python either raises \<^verbatim>\<open>re.error\<close> or reads
  syntax that is not modelled.
\<close>

datatype re_item = Bol | Eol | Any_char | Any_star | Lit char

text \<open>
  The characters \<^verbatim>\<open>\ [ ] ( ) { } + |\<close>, which take a pattern out of the fragment, and
  with them the two that the rewriting removes (a question mark) or only leaves behind a
  dot (a star).
\<close>

definition re_meta :: "char \<Rightarrow> bool" where
  "re_meta c =
     (c \<in> set [CHR 0x5C, CHR ''['', CHR '']'', CHR ''('', CHR '')'', CHR ''{'', CHR ''}'',
                CHR ''+'', CHR ''|''])"

definition re_special :: "char \<Rightarrow> bool" where
  "re_special c = (re_meta c \<or> c = CHR ''?'' \<or> c = CHR ''*'')"

fun re_parse :: "string \<Rightarrow> re_item list option" where
  "re_parse [] = Some []"
| "re_parse (c # cs) =
     (if c = CHR ''.'' then
        (case cs of
           [] \<Rightarrow> Some [Any_char]
         | d # ds \<Rightarrow>
             if d = CHR ''*'' then map_option (Cons Any_star) (re_parse ds)
             else map_option (Cons Any_char) (re_parse cs))
      else if c = CHR ''^'' then map_option (Cons Bol) (re_parse cs)
      else if c = CHR ''$'' then map_option (Cons Eol) (re_parse cs)
      else if re_special c then None
      else map_option (Cons (Lit c)) (re_parse cs))"

text \<open>
  \<open>re_match_items items at_start s\<close>: the items match a prefix of \<open>s\<close>, where
  \<open>at_start\<close> says that \<open>s\<close> is the whole text (\<^verbatim>\<open>re.match\<close> starts at position 0
  and does not ask the match to reach the end; the trailing \<^verbatim>\<open>$\<close> does).
\<close>

fun re_match_items :: "re_item list \<Rightarrow> bool \<Rightarrow> string \<Rightarrow> bool" where
  "re_match_items [] at_start s = True"
| "re_match_items (Bol # r) at_start s = (at_start \<and> re_match_items r at_start s)"
| "re_match_items (Eol # r) at_start s =
     ((s = [] \<or> s = [CHR 0x0A]) \<and> re_match_items r at_start s)"
| "re_match_items (Any_char # r) at_start [] = False"
| "re_match_items (Any_char # r) at_start (c # cs) =
     (c \<noteq> CHR 0x0A \<and> re_match_items r False cs)"
| "re_match_items (Lit a # r) at_start [] = False"
| "re_match_items (Lit a # r) at_start (c # cs) =
     (char_lower c = char_lower a \<and> re_match_items r False cs)"
| "re_match_items (Any_star # r) at_start [] = re_match_items r at_start []"
| "re_match_items (Any_star # r) at_start (c # cs) =
     (re_match_items r at_start (c # cs)
      \<or> (c \<noteq> CHR 0x0A \<and> re_match_items (Any_star # r) False cs))"

definition matches_pattern :: "string \<Rightarrow> string \<Rightarrow> bool option" where
  "matches_pattern nm pattern =
     (let regex_pattern = replace (replace pattern (CHR ''*'') ''.*'') (CHR ''?'') ''.''
      in map_option (\<lambda>items. re_match_items items True nm)
           (re_parse (''^'' @ regex_pattern @ ''$'')))"

text \<open>
  \<^verbatim>\<open>any(self._matches_pattern(dep.name, pattern) for pattern in exclude_patterns)\<close>:
  the patterns are tried in order and the first match ends the search.
\<close>

fun any_matches_pattern :: "string \<Rightarrow> string list \<Rightarrow> bool option" where
  "any_matches_pattern nm [] = Some False"
| "any_matches_pattern nm (pattern # patterns) =
     (case matches_pattern nm pattern of
        None \<Rightarrow> None
      | Some True \<Rightarrow> Some True
      | Some False \<Rightarrow> any_matches_pattern nm patterns)"

subsection \<open>\<^verbatim>\<open>filter_dependencies\<close>\<close>

text \<open>
  The tests on the group and on the fixed sets, in the order of the loop body: \<open>True\<close>
  when one of them reaches its \<^verbatim>\<open>continue\<close>.
\<close>

definition continues :: "dependency_info \<Rightarrow> bool \<Rightarrow> bool \<Rightarrow> bool \<Rightarrow> bool" where
  "continues dep include_dev include_optional runtime_only =
     (if runtime_only \<and> dep_type dep \<noteq> ''runtime'' then True
      else if \<not> include_dev \<and> dep_type dep = ''dev'' then True
      else if \<not> include_optional \<and> dep_type dep = ''optional'' then True
      else if runtime_only \<and> lower (name dep) \<in> set build_time_packages then True
      else if runtime_only
              \<and> list_ex (\<lambda>stub. startswith (name dep) stub) type_stub_packages then True
      else if runtime_only \<and> lower (name dep) \<in> set test_packages then True
      else False)"

text \<open>
  The loop over \<open>dependencies\<close>: the exclude patterns are tried first (and may fail in
  the regular-expression engine), then the tests above; a dependency that passes them all
  is appended to \<open>filtered\<close>.
\<close>

fun filter_loop ::
  "dependency_info list \<Rightarrow> bool \<Rightarrow> bool \<Rightarrow> bool \<Rightarrow> string list \<Rightarrow>
   dependency_info list \<Rightarrow> dependency_info list option" where
  "filter_loop [] include_dev include_optional runtime_only exclude_patterns filtered =
     Some filtered"
| "filter_loop (dep # deps) include_dev include_optional runtime_only exclude_patterns filtered =
     (case any_matches_pattern (name dep) exclude_patterns of
        None \<Rightarrow> None
      | Some excluded \<Rightarrow>
          filter_loop deps include_dev include_optional runtime_only exclude_patterns
            (if excluded \<or> continues dep include_dev include_optional runtime_only
             then filtered else filtered @ [dep]))"

text \<open>\<^verbatim>\<open>exclude_patterns or []\<close>\<close>

definition or_empty :: "'a list option \<Rightarrow> 'a list" where
  "or_empty xs = (case xs of None \<Rightarrow> [] | Some ys \<Rightarrow> ys)"

definition filter_dependencies ::
  "dependency_info list \<Rightarrow> bool \<Rightarrow> bool \<Rightarrow> bool \<Rightarrow> string list option \<Rightarrow>
   dependency_info list option" where
  "filter_dependencies dependencies include_dev include_optional runtime_only exclude_patterns =
     filter_loop dependencies include_dev include_optional runtime_only
       (or_empty exclude_patterns) []"

section \<open>The files and libraries a run reads\<close>

text \<open>
  A text file as the program sees it: the lines that iterating over it (or \<^verbatim>\<open>f.read()\<close>)
  hands out, each with its line end, and whether opening or reading the file raises once
  they are out. \<^verbatim>\<open>open\<close>, a decoding error and an I/O error all raise inside the parsers'
  \<^verbatim>\<open>try\<close> block.
\<close>

record text_file =
  lines :: "string list"
  read_fails :: bool

text \<open>
  A path is the project root and the file name under it
  (\<^verbatim>\<open>self.project_root / 'requirements.txt'\<close>); \<^verbatim>\<open>file_path.name\<close> is the second part.
\<close>

type_synonym path = "string \<times> string"

definition path_name :: "path \<Rightarrow> string" where
  "path_name file_path = snd file_path"

text \<open>
  What \<^verbatim>\<open>toml.load\<close> decodes: strings, tables, arrays, and every other value (integer,
  float, boolean, date) as a scalar that carries its \<^verbatim>\<open>str()\<close> text. Tables are
  association lists in document order, read with \<open>map_of\<close>.
\<close>

datatype toml = Str string | Table "(string \<times> toml) list" | Array "toml list" | Scalar string

text \<open>
  An installed distribution as \<^verbatim>\<open>pkg_resources.get_distribution\<close> returns it:
  \<open>dist_version\<close> is \<open>None\<close> when reading \<^verbatim>\<open>dist.version\<close> raises, and
  \<open>dist_metadata\<close> is \<open>None\<close> when the distribution has no \<^verbatim>\<open>get_metadata\<close> or
  \<^verbatim>\<open>get_metadata('METADATA')\<close> raises.
\<close>

record dist =
  dist_version :: "string option"
  dist_metadata :: "string option"

text \<open>
  The reporter object together with the world it reads. \<open>files\<close> is the file system
  (\<open>None\<close>: the path does not exist). \<open>toml\<close> and \<open>pkg_resources\<close> are the optional
  imports (\<open>None\<close>: the import failed); \<open>toml\<close> maps an opened file to the decoded
  document (\<open>None\<close>: \<^verbatim>\<open>toml.load\<close> raises), \<open>pkg_resources\<close> maps a package name to
  its distribution (\<open>None\<close>: \<^verbatim>\<open>get_distribution\<close> raises). \<open>str_of_array\<close> is Python's
  \<^verbatim>\<open>str()\<close> of a decoded array and \<open>detected_project_name\<close> the result of
  \<^verbatim>\<open>_detect_project_name\<close>; neither is modelled further.
\<close>

record reporter =
  project_root :: string
  files :: "path \<Rightarrow> text_file option"
  toml :: "(text_file \<Rightarrow> (string \<times> toml) list option) option"
  pkg_resources :: "(string \<Rightarrow> dist option) option"
  str_of_array :: "toml list \<Rightarrow> string"
  detected_project_name :: string

text \<open>What the parsers print.\<close>

datatype warning = Error_parsing path | Toml_not_available

section \<open>Manifest discovery\<close>

definition candidates :: "string list" where
  "candidates =
     [''requirements.txt'', ''setup.py'', ''setup.cfg'', ''pyproject.toml'', ''Pipfile'',
      ''environment.yml'', ''environment.yaml'', ''conda.yml'', ''requirements-dev.txt'',
      ''dev-requirements.txt'', ''test-requirements.txt'']"

text \<open>
  \<^verbatim>\<open>discover_dependency_files\<close>: the dictionary from candidate name to path, in the
  order of the candidates, for the paths that exist.
\<close>

definition discover_dependency_files :: "reporter \<Rightarrow> (string \<times> path) list" where
  "discover_dependency_files self =
     filter (\<lambda>(nm, file_path). files self file_path \<noteq> None)
       (map (\<lambda>nm. (nm, (project_root self, nm))) candidates)"

section \<open>Manifest parsers\<close>

subsection \<open>\<^verbatim>\<open>_determine_dep_type_from_filename\<close>\<close>

definition determine_dep_type_from_filename :: "string \<Rightarrow> string" where
  "determine_dep_type_from_filename filename =
     (let filename_lower = lower filename in
      if list_ex (\<lambda>keyword. py_in keyword filename_lower) [''dev'', ''development'']
        then ''dev''
      else if list_ex (\<lambda>keyword. py_in keyword filename_lower) [''test'', ''testing'']
        then ''dev''
      else if list_ex (\<lambda>keyword. py_in keyword filename_lower) [''doc'', ''docs'']
        then ''dev''
      else ''runtime'')"

subsection \<open>\<^verbatim>\<open>parse_requirements_txt\<close>\<close>

text \<open>The character class \<^verbatim>\<open>[a-zA-Z0-9_.-]\<close>.\<close>

definition name_char :: "char \<Rightarrow> bool" where
  "name_char c =
     (c \<in> set ''abcdefghijklmnopqrstuvwxyzABCDEFGHIJKLMNOPQRSTUVWXYZ0123456789_.-'')"

text \<open>
  \<^verbatim>\<open>re.match(r'^([a-zA-Z0-9_.-]+)(.*)$', line)\<close>: the first group is the longest run of
  name characters at the start, which must not be empty; the second group is the rest,
  which must be free of line feeds, but for one that ends the line (the dot does not match
  it and \<^verbatim>\<open>$\<close> matches before it).
\<close>

definition chomp :: "string \<Rightarrow> string" where
  "chomp s = (if s \<noteq> [] \<and> last s = CHR 0x0A then butlast s else s)"

definition requirement_match :: "string \<Rightarrow> (string \<times> string) option" where
  "requirement_match line =
     (let group1 = takeWhile name_char line;
          group2 = chomp (dropWhile name_char line)
      in if group1 \<noteq> [] \<and> CHR 0x0A \<notin> set group2 then Some (group1, group2) else None)"

text \<open>The body of the loop over the lines, for the lines that were read.\<close>

fun requirement_lines :: "string \<Rightarrow> string list \<Rightarrow> dependency_info list \<Rightarrow> dependency_info list"
  where
  "requirement_lines filename [] dependencies = dependencies"
| "requirement_lines filename (raw # rest) dependencies =
     (let line = strip raw in
      if line = [] \<or> startswith line ''#'' then requirement_lines filename rest dependencies
      else if startswith line ''-'' then requirement_lines filename rest dependencies
      else
        (case requirement_match line of
           Some (nm, vspec) \<Rightarrow>
             requirement_lines filename rest
               (dependencies
                @ [DependencyInfo nm vspec (determine_dep_type_from_filename filename)])
         | None \<Rightarrow> requirement_lines filename rest dependencies))"

text \<open>
  The \<^verbatim>\<open>except\<close> clause prints the warning and falls through to
  \<^verbatim>\<open>return dependencies\<close>, the list as the loop left it.
\<close>

definition parse_requirements_txt :: "reporter \<Rightarrow> path \<Rightarrow> dependency_info list \<times> warning list"
  where
  "parse_requirements_txt self file_path =
     (case files self file_path of
        None \<Rightarrow> ([], [Error_parsing file_path])
      | Some f \<Rightarrow>
          (requirement_lines (path_name file_path) (lines f) [],
           if read_fails f then [Error_parsing file_path] else []))"

subsection \<open>\<^verbatim>\<open>parse_setup_py\<close>\<close>

text \<open>
  \<^verbatim>\<open>re.search(r'install_requires\s*=\s*\[(.*?)\]', content, re.DOTALL)\<close> and its twin for
  \<^verbatim>\<open>extras_require\<close> with braces: \<open>assignment_at\<close> is the match at the start of the
  text, group 1 being the text up to the first closing bracket; the search takes the
  leftmost start that matches.
\<close>

definition assignment_at :: "string \<Rightarrow> char \<Rightarrow> char \<Rightarrow> string \<Rightarrow> string option" where
  "assignment_at keyword opening closing s =
     (if startswith s keyword then
        (case dropWhile is_space (drop (length keyword) s) of
           [] \<Rightarrow> None
         | e # after_eq \<Rightarrow>
             if e = CHR ''='' then
               (case dropWhile is_space after_eq of
                  [] \<Rightarrow> None
                | b # body \<Rightarrow>
                    if b = opening \<and> closing \<in> set body
                    then Some (takeWhile (\<lambda>c. c \<noteq> closing) body)
                    else None)
             else None)
      else None)"

fun search_assignment :: "string \<Rightarrow> char \<Rightarrow> char \<Rightarrow> string \<Rightarrow> string option" where
  "search_assignment keyword opening closing [] = assignment_at keyword opening closing []"
| "search_assignment keyword opening closing (c # cs) =
     (case assignment_at keyword opening closing (c # cs) of
        Some body \<Rightarrow> Some body
      | None \<Rightarrow> search_assignment keyword opening closing cs)"

text \<open>
  \<^verbatim>\<open>re.findall(r'["\']([^"\']+)["\']', text)\<close>: a quote, the longest run of characters
  that are not quotes, which must not be empty, and a quote; the scan goes on after the
  closing quote of a match and one character further otherwise.
\<close>

definition is_quote :: "char \<Rightarrow> bool" where
  "is_quote c = (c = CHR 0x22 \<or> c = CHR 0x27)"

function quoted_strings :: "string \<Rightarrow> string list" where
  "quoted_strings [] = []"
| "quoted_strings (c # cs) =
     (if is_quote c \<and> takeWhile (\<lambda>x. \<not> is_quote x) cs \<noteq> []
         \<and> dropWhile (\<lambda>x. \<not> is_quote x) cs \<noteq> []
      then takeWhile (\<lambda>x. \<not> is_quote x) cs
           # quoted_strings (tl (dropWhile (\<lambda>x. \<not> is_quote x) cs))
      else quoted_strings cs)"
  by pat_completeness auto
termination
proof (relation "measure length")
  show "wf (measure length)" by simp
next
  fix c :: char and cs :: string
  have "length (tl (dropWhile (\<lambda>x. \<not> is_quote x) cs)) \<le> length cs"
    using length_dropWhile_le [of "\<lambda>x. \<not> is_quote x" cs] by simp
  then show "(tl (dropWhile (\<lambda>x. \<not> is_quote x) cs), c # cs) \<in> measure length"
    by simp
next
  fix c :: char and cs :: string
  show "(cs, c # cs) \<in> measure length" by simp
qed

text \<open>
  The split of a spec string in \<^verbatim>\<open>parse_setup_py\<close> and \<^verbatim>\<open>parse_pyproject_toml\<close>:
  \<^verbatim>\<open>name = re.split(r'[<>=!]', spec)[0].strip()\<close>,
  \<^verbatim>\<open>version_spec = spec[len(name):].strip()\<close>.
\<close>

definition is_operator :: "char \<Rightarrow> bool" where
  "is_operator c = (c \<in> set ''<>=!'')"

definition split_spec :: "string \<Rightarrow> string \<times> string" where
  "split_spec package_spec =
     (let nm = strip (takeWhile (\<lambda>c. \<not> is_operator c) package_spec);
          vspec = strip (drop (length nm) package_spec)
      in (nm, vspec))"

definition requires_specs :: "string list \<Rightarrow> dependency_info list" where
  "requires_specs package_matches =
     map (\<lambda>package_spec.
            let (nm, vspec) = split_spec package_spec
            in DependencyInfo nm vspec ''runtime'')
       package_matches"

definition extras_specs :: "string list \<Rightarrow> dependency_info list" where
  "extras_specs package_matches =
     map (\<lambda>package_spec.
            let (nm, vspec) = split_spec package_spec
            in DependencyInfo nm vspec ''optional'')
       (filter (\<lambda>package_spec.
                  CHR ''='' \<in> set package_spec \<or> CHR ''>'' \<in> set package_spec
                  \<or> CHR ''<'' \<in> set package_spec)
          package_matches)"

definition setup_py_content :: "string \<Rightarrow> dependency_info list" where
  "setup_py_content content =
     (case search_assignment ''install_requires'' (CHR ''['') (CHR '']'') content of
        None \<Rightarrow> []
      | Some requires_content \<Rightarrow> requires_specs (quoted_strings requires_content))
     @ (case search_assignment ''extras_require'' (CHR ''{'') (CHR ''}'') content of
          None \<Rightarrow> []
        | Some extras_content \<Rightarrow> extras_specs (quoted_strings extras_content))"

text \<open>
  \<^verbatim>\<open>f.read()\<close> is the first statement that fills nothing in; when it raises the list is
  still empty, and nothing after it raises.
\<close>

definition parse_setup_py :: "reporter \<Rightarrow> path \<Rightarrow> dependency_info list \<times> warning list" where
  "parse_setup_py self file_path =
     (case files self file_path of
        None \<Rightarrow> ([], [Error_parsing file_path])
      | Some f \<Rightarrow>
          if read_fails f then ([], [Error_parsing file_path])
          else (setup_py_content (concat (lines f)), []))"

subsection \<open>\<^verbatim>\<open>parse_pyproject_toml\<close>\<close>

text \<open>
  The decoded document is read with Python's dynamic operations, each of which raises on
  a value of the wrong kind: \<^verbatim>\<open>key in v\<close>, \<^verbatim>\<open>v[key]\<close>, \<^verbatim>\<open>for x in v\<close> and
  \<^verbatim>\<open>v.items()\<close>.
\<close>

datatype py_error = TypeError | AttributeError | KeyError

fun contains :: "string \<Rightarrow> toml \<Rightarrow> py_error + bool" where
  "contains k (Table kvs) = Inr (map_of kvs k \<noteq> None)"
| "contains k (Array xs) = Inr (Str k \<in> set xs)"
| "contains k (Str s) = Inr (py_in k s)"
| "contains k (Scalar t) = Inl TypeError"

fun getitem :: "toml \<Rightarrow> string \<Rightarrow> py_error + toml" where
  "getitem (Table kvs) k = (case map_of kvs k of None \<Rightarrow> Inl KeyError | Some v \<Rightarrow> Inr v)"
| "getitem (Array xs) k = Inl TypeError"
| "getitem (Str s) k = Inl TypeError"
| "getitem (Scalar t) k = Inl TypeError"

fun iterate :: "toml \<Rightarrow> py_error + toml list" where
  "iterate (Table kvs) = Inr (map (\<lambda>(k, v). Str k) kvs)"
| "iterate (Array xs) = Inr xs"
| "iterate (Str s) = Inr (map (\<lambda>c. Str [c]) s)"
| "iterate (Scalar t) = Inl TypeError"

fun items :: "toml \<Rightarrow> py_error + (string \<times> toml) list" where
  "items (Table kvs) = Inr kvs"
| "items (Array xs) = Inl AttributeError"
| "items (Str s) = Inl AttributeError"
| "items (Scalar t) = Inl AttributeError"

text \<open>\<^verbatim>\<open>a in data and b in data[a]\<close>\<close>

definition has_entry :: "toml \<Rightarrow> string \<Rightarrow> string \<Rightarrow> py_error + bool" where
  "has_entry data a b =
     (case contains a data of
        Inl e \<Rightarrow> Inl e
      | Inr False \<Rightarrow> Inr False
      | Inr True \<Rightarrow> (case getitem data a of Inl e \<Rightarrow> Inl e | Inr v \<Rightarrow> contains b v))"

text \<open>\<^verbatim>\<open>data[a][b]\<close>\<close>

definition get_entry :: "toml \<Rightarrow> string \<Rightarrow> string \<Rightarrow> py_error + toml" where
  "get_entry data a b =
     (case getitem data a of Inl e \<Rightarrow> Inl e | Inr v \<Rightarrow> getitem v b)"

text \<open>
  A statement of the \<^verbatim>\<open>try\<close> block takes the list of dependencies and gives it back with
  the exception it raised, if any; \<open>and_then\<close> runs the next statement unless the first
  one raised.
\<close>

type_synonym outcome = "dependency_info list \<times> py_error option"

definition and_then :: "outcome \<Rightarrow> (dependency_info list \<Rightarrow> outcome) \<Rightarrow> outcome" where
  "and_then r next_statement =
     (case r of
        (dependencies, None) \<Rightarrow> next_statement dependencies
      | (dependencies, Some e) \<Rightarrow> (dependencies, Some e))"

text \<open>
  \<^verbatim>\<open>for dep_spec in deps\<close> with the split of each spec; \<^verbatim>\<open>re.split\<close> raises on a value
  that is not a string.
\<close>

fun add_dep_specs :: "toml list \<Rightarrow> string \<Rightarrow> dependency_info list \<Rightarrow> outcome" where
  "add_dep_specs [] dtype dependencies = (dependencies, None)"
| "add_dep_specs (Str dep_spec # rest) dtype dependencies =
     (let (nm, vspec) = split_spec dep_spec
      in add_dep_specs rest dtype (dependencies @ [DependencyInfo nm vspec dtype]))"
| "add_dep_specs (v # rest) dtype dependencies = (dependencies, Some TypeError)"

definition add_iterated :: "toml \<Rightarrow> string \<Rightarrow> dependency_info list \<Rightarrow> outcome" where
  "add_iterated deps dtype dependencies =
     (case iterate deps of
        Inl e \<Rightarrow> (dependencies, Some e)
      | Inr dep_specs \<Rightarrow> add_dep_specs dep_specs dtype dependencies)"

text \<open>\<^verbatim>\<open>for group_name, deps in data['project']['optional-dependencies'].items()\<close>\<close>

fun add_optional_groups :: "(string \<times> toml) list \<Rightarrow> dependency_info list \<Rightarrow> outcome" where
  "add_optional_groups [] dependencies = (dependencies, None)"
| "add_optional_groups ((group_name, deps) # rest) dependencies =
     and_then
       (add_iterated deps
          (if group_name \<in> set [''dev'', ''test'', ''docs''] then ''dev'' else ''optional'')
          dependencies)
       (add_optional_groups rest)"

text \<open>\<^verbatim>\<open>str(spec) if not isinstance(spec, dict) else ""\<close>\<close>

fun poetry_version_spec :: "reporter \<Rightarrow> toml \<Rightarrow> string" where
  "poetry_version_spec self (Table kvs) = []"
| "poetry_version_spec self (Str s) = s"
| "poetry_version_spec self (Scalar t) = t"
| "poetry_version_spec self (Array xs) = str_of_array self xs"

text \<open>
  The two loops over a Poetry table; \<open>skip_python\<close> is the \<^verbatim>\<open>continue\<close> on the key
  \<^verbatim>\<open>python\<close>, which only the first loop has.
\<close>

fun add_poetry ::
  "reporter \<Rightarrow> bool \<Rightarrow> (string \<times> toml) list \<Rightarrow> string \<Rightarrow> dependency_info list \<Rightarrow>
   dependency_info list" where
  "add_poetry self skip_python [] dtype dependencies = dependencies"
| "add_poetry self skip_python ((nm, spec) # rest) dtype dependencies =
     (if skip_python \<and> nm = ''python'' then add_poetry self skip_python rest dtype dependencies
      else add_poetry self skip_python rest dtype
             (dependencies @ [DependencyInfo nm (poetry_version_spec self spec) dtype]))"

definition add_poetry_table ::
  "reporter \<Rightarrow> bool \<Rightarrow> toml \<Rightarrow> string \<Rightarrow> string \<Rightarrow> dependency_info list \<Rightarrow> outcome" where
  "add_poetry_table self skip_python poetry key dtype dependencies =
     (case contains key poetry of
        Inl e \<Rightarrow> (dependencies, Some e)
      | Inr False \<Rightarrow> (dependencies, None)
      | Inr True \<Rightarrow>
          (case getitem poetry key of
             Inl e \<Rightarrow> (dependencies, Some e)
           | Inr table \<Rightarrow>
               (case items table of
                  Inl e \<Rightarrow> (dependencies, Some e)
                | Inr kvs \<Rightarrow> (add_poetry self skip_python kvs dtype dependencies, None))))"

text \<open>The three \<^verbatim>\<open>if\<close> statements after \<^verbatim>\<open>toml.load\<close>, in order.\<close>

definition pep621_dependencies :: "toml \<Rightarrow> dependency_info list \<Rightarrow> outcome" where
  "pep621_dependencies data dependencies =
     (case has_entry data ''project'' ''dependencies'' of
        Inl e \<Rightarrow> (dependencies, Some e)
      | Inr False \<Rightarrow> (dependencies, None)
      | Inr True \<Rightarrow>
          (case get_entry data ''project'' ''dependencies'' of
             Inl e \<Rightarrow> (dependencies, Some e)
           | Inr deps \<Rightarrow> add_iterated deps ''runtime'' dependencies))"

definition pep621_optional :: "toml \<Rightarrow> dependency_info list \<Rightarrow> outcome" where
  "pep621_optional data dependencies =
     (case has_entry data ''project'' ''optional-dependencies'' of
        Inl e \<Rightarrow> (dependencies, Some e)
      | Inr False \<Rightarrow> (dependencies, None)
      | Inr True \<Rightarrow>
          (case get_entry data ''project'' ''optional-dependencies'' of
             Inl e \<Rightarrow> (dependencies, Some e)
           | Inr groups \<Rightarrow>
               (case items groups of
                  Inl e \<Rightarrow> (dependencies, Some e)
                | Inr kvs \<Rightarrow> add_optional_groups kvs dependencies)))"

definition poetry_tables :: "reporter \<Rightarrow> toml \<Rightarrow> dependency_info list \<Rightarrow> outcome" where
  "poetry_tables self data dependencies =
     (case has_entry data ''tool'' ''poetry'' of
        Inl e \<Rightarrow> (dependencies, Some e)
      | Inr False \<Rightarrow> (dependencies, None)
      | Inr True \<Rightarrow>
          (case get_entry data ''tool'' ''poetry'' of
             Inl e \<Rightarrow> (dependencies, Some e)
           | Inr poetry \<Rightarrow>
               and_then
                 (add_poetry_table self True poetry ''dependencies'' ''runtime'' dependencies)
                 (add_poetry_table self False poetry ''dev-dependencies'' ''dev'')))"

definition pyproject_data :: "reporter \<Rightarrow> toml \<Rightarrow> outcome" where
  "pyproject_data self data =
     and_then (and_then (pep621_dependencies data []) (pep621_optional data))
       (poetry_tables self data)"

text \<open>
  Without the decoder the function returns before the \<^verbatim>\<open>try\<close>; inside it, whatever
  raises (opening the file, \<^verbatim>\<open>toml.load\<close>, a value of the wrong kind) ends in the
  \<^verbatim>\<open>except\<close> clause, which prints and falls through to \<^verbatim>\<open>return dependencies\<close>.
\<close>

definition parse_pyproject_toml :: "reporter \<Rightarrow> path \<Rightarrow> dependency_info list \<times> warning list"
  where
  "parse_pyproject_toml self file_path =
     (case toml self of
        None \<Rightarrow> ([], [Toml_not_available])
      | Some load \<Rightarrow>
          (case files self file_path of
             None \<Rightarrow> ([], [Error_parsing file_path])
           | Some f \<Rightarrow>
               if read_fails f then ([], [Error_parsing file_path])
               else
                 (case load f of
                    None \<Rightarrow> ([], [Error_parsing file_path])
                  | Some kvs \<Rightarrow>
                      (case pyproject_data self (Table kvs) of
                         (dependencies, None) \<Rightarrow> (dependencies, [])
                       | (dependencies, Some e) \<Rightarrow> (dependencies, [Error_parsing file_path])))))"

section \<open>\<^verbatim>\<open>get_all_dependencies\<close>\<close>

text \<open>
  The loop over the discovered files, with the list \<open>all_deps\<close> and what has been
  printed so far.
\<close>

fun all_deps_loop ::
  "reporter \<Rightarrow> (string \<times> path) list \<Rightarrow> dependency_info list \<times> warning list \<Rightarrow>
   dependency_info list \<times> warning list" where
  "all_deps_loop self [] acc = acc"
| "all_deps_loop self ((file_type, file_path) # rest) (all_deps, printed) =
     (if endswith file_type ''.txt'' then
        (let (deps, ws) = parse_requirements_txt self file_path
         in all_deps_loop self rest (all_deps @ deps, printed @ ws))
      else if file_type = ''setup.py'' then
        (let (deps, ws) = parse_setup_py self file_path
         in all_deps_loop self rest (all_deps @ deps, printed @ ws))
      else if file_type = ''pyproject.toml'' then
        (let (deps, ws) = parse_pyproject_toml self file_path
         in all_deps_loop self rest (all_deps @ deps, printed @ ws))
      else all_deps_loop self rest (all_deps, printed))"

definition get_all_dependencies :: "reporter \<Rightarrow> dependency_info list \<times> warning list" where
  "get_all_dependencies self = all_deps_loop self (discover_dependency_files self) ([], [])"

section \<open>Package metadata\<close>

text \<open>The dictionary that \<^verbatim>\<open>get_package_info\<close> returns.\<close>

record package_info =
  pkg_name :: string
  pkg_version :: string
  pkg_license :: string
  pkg_author :: string
  pkg_homepage :: string
  pkg_requires_attribution :: bool

text \<open>\<^verbatim>\<open>s.split(sep)\<close> for a separator of one character.\<close>

fun split_on :: "char \<Rightarrow> string \<Rightarrow> string list" where
  "split_on sep [] = [[]]"
| "split_on sep (c # cs) =
     (if c = sep then [] # split_on sep cs
      else (case split_on sep cs of
              [] \<Rightarrow> [[c]]
            | piece # pieces \<Rightarrow> (c # piece) # pieces))"

text \<open>
  \<^verbatim>\<open>line.split(':', 1)[1].strip()\<close>, used on lines that start with a header name and
  its colon.
\<close>

definition header_value :: "string \<Rightarrow> string" where
  "header_value line = strip (drop 1 (dropWhile (\<lambda>c. c \<noteq> CHR '':'') line))"

text \<open>One line of the metadata; a later header of the same name overwrites an earlier one.\<close>

definition metadata_line :: "package_info \<Rightarrow> string \<Rightarrow> package_info" where
  "metadata_line info line =
     (if startswith line ''License:'' then info\<lparr>pkg_license := header_value line\<rparr>
      else if startswith line ''Author:'' then info\<lparr>pkg_author := header_value line\<rparr>
      else if startswith line ''Home-page:'' then info\<lparr>pkg_homepage := header_value line\<rparr>
      else info)"

text \<open>
  \<^verbatim>\<open>get_package_info\<close>: every exception of the lookup is swallowed, and the attribution
  flag is computed last, from the license text as it then stands.
\<close>

definition get_package_info :: "reporter \<Rightarrow> string \<Rightarrow> package_info" where
  "get_package_info self package_name =
     (let info0 = \<lparr>pkg_name = package_name, pkg_version = ''unknown'',
                    pkg_license = ''unknown'', pkg_author = ''unknown'',
                    pkg_homepage = ''unknown'', pkg_requires_attribution = True\<rparr>;
          info =
            (case pkg_resources self of
               None \<Rightarrow> info0
             | Some get_distribution \<Rightarrow>
                 (case get_distribution package_name of
                    None \<Rightarrow> info0
                  | Some d \<Rightarrow>
                      (case dist_version d of
                         None \<Rightarrow> info0
                       | Some v \<Rightarrow>
                           (case dist_metadata d of
                              None \<Rightarrow> info0\<lparr>pkg_version := v\<rparr>
                            | Some metadata \<Rightarrow>
                                foldl metadata_line (info0\<lparr>pkg_version := v\<rparr>)
                                  (split_on (CHR 0x0A) metadata)))))
      in info\<lparr>pkg_requires_attribution := requires_attribution (pkg_license info)\<rparr>)"

section \<open>\<^verbatim>\<open>generate_report\<close>\<close>

text \<open>
  An entry of \<^verbatim>\<open>report["packages"]\<close>: the dictionary of \<^verbatim>\<open>get_package_info\<close> with the
  keys \<^verbatim>\<open>dependency_type\<close> and \<^verbatim>\<open>version_spec\<close> added.
\<close>

record package = package_info +
  pkg_dependency_type :: string
  pkg_version_spec :: string

text \<open>
  \<^verbatim>\<open>report["summary"]\<close>; the key \<^verbatim>\<open>requires_attribution\<close> is the field
  \<open>requires_attribution_count\<close>.
\<close>

record summary =
  total_packages :: nat
  runtime_packages :: nat
  dev_packages :: nat
  optional_packages :: nat
  requires_attribution_count :: nat
  unknown_licenses :: nat

record filters_applied =
  applied_include_dev :: bool
  applied_include_optional :: bool
  applied_runtime_only :: bool
  applied_exclude_patterns :: "string list"

text \<open>
  The report. \<^verbatim>\<open>excluded_build_tools\<close> is \<^verbatim>\<open>list(self.build_time_packages)\<close>, a list in
  the order of a Python set, hence a set here.
\<close>

record report =
  project :: string
  project_path :: string
  generated_by :: string
  report_type :: string
  dependency_files :: "path list"
  packages :: "package list"
  summary :: summary
  excluded_build_tools :: "string set"
  filters_applied :: filters_applied

text \<open>The body of the loop over the sorted dependencies.\<close>

definition process_dependency :: "reporter \<Rightarrow> report \<Rightarrow> dependency_info \<Rightarrow> report" where
  "process_dependency self r dep =
     (let info = package_info.extend (get_package_info self (name dep))
                   (package.fields (dep_type dep) (version_spec dep));
          r1 = r\<lparr>packages := packages r @ [info]\<rparr>;
          r2 = (if dep_type dep = ''runtime'' then
                  r1\<lparr>summary := (summary r1)\<lparr>runtime_packages := runtime_packages (summary r1) + 1\<rparr>\<rparr>
                else if dep_type dep = ''dev'' then
                  r1\<lparr>summary := (summary r1)\<lparr>dev_packages := dev_packages (summary r1) + 1\<rparr>\<rparr>
                else if dep_type dep = ''optional'' then
                  r1\<lparr>summary := (summary r1)\<lparr>optional_packages := optional_packages (summary r1) + 1\<rparr>\<rparr>
                else r1);
          r3 = (if pkg_requires_attribution info then
                  r2\<lparr>summary := (summary r2)
                      \<lparr>requires_attribution_count := requires_attribution_count (summary r2) + 1\<rparr>\<rparr>
                else r2)
      in if pkg_license info = ''unknown'' then
           r3\<lparr>summary := (summary r3)\<lparr>unknown_licenses := unknown_licenses (summary r3) + 1\<rparr>\<rparr>
         else r3)"

text \<open>
  \<^verbatim>\<open>generate_report\<close>. The result is \<open>None\<close> when the filter fails on an exclude
  pattern. \<^verbatim>\<open>sorted\<close> is stable, as \<open>sort_key\<close> is; strings compare by their
  characters' codes, lexicographically.
\<close>

definition generate_report ::
  "reporter \<Rightarrow> bool \<Rightarrow> bool \<Rightarrow> bool \<Rightarrow> string list option \<Rightarrow> string option \<Rightarrow> report option"
  where
  "generate_report self include_dev include_optional runtime_only exclude_patterns project_name =
     (let all_deps = fst (get_all_dependencies self) in
      case filter_dependencies all_deps include_dev include_optional runtime_only
             exclude_patterns of
        None \<Rightarrow> None
      | Some filtered_deps \<Rightarrow>
          (let r0 =
                 \<lparr>project =
                    (case project_name of
                       None \<Rightarrow> detected_project_name self
                     | Some n \<Rightarrow> if n = [] then detected_project_name self else n),
                  project_path = project_root self,
                  generated_by = ''Universal Python License Reporter'',
                  report_type =
                    (if runtime_only then ''Runtime Dependencies (PyInstaller Bundled)''
                     else if include_dev \<and> include_optional
                       then ''All Dependencies (Runtime + Development + Optional)''
                     else if include_dev then ''Runtime + Development Dependencies''
                     else ''Runtime Dependencies''),
                  dependency_files = map snd (discover_dependency_files self),
                  packages = [],
                  summary =
                    \<lparr>total_packages = 0, runtime_packages = 0, dev_packages = 0,
                     optional_packages = 0, requires_attribution_count = 0,
                     unknown_licenses = 0\<rparr>,
                  excluded_build_tools = (if runtime_only then set build_time_packages else {}),
                  filters_applied =
                    \<lparr>applied_include_dev = include_dev,
                     applied_include_optional = include_optional,
                     applied_runtime_only = runtime_only,
                     applied_exclude_patterns = or_empty exclude_patterns\<rparr>\<rparr>;
               r = foldl (process_dependency self) r0
                     (sort_key (\<lambda>x. lower (name x)) filtered_deps)
           in Some (r\<lparr>summary := (summary r)\<lparr>total_packages := length filtered_deps\<rparr>\<rparr>)))"

section \<open>Notions used to state the properties\<close>

text \<open>What the two \<^verbatim>\<open>replace\<close> calls of \<^verbatim>\<open>_matches_pattern\<close> make of one character.\<close>

definition rewrite_char :: "char \<Rightarrow> string" where
  "rewrite_char c = (if c = CHR ''*'' then ''.*'' else if c = CHR ''?'' then ''.'' else [c])"

text \<open>
  The match of an exclude pattern as the specification words it (4.4, rule 1): without
  case, over the whole name, a star for any run of characters, a question mark for exactly
  one character, every other character for itself.
\<close>

fun spec_glob_match :: "string \<Rightarrow> string \<Rightarrow> bool" where
  "spec_glob_match [] s = (s = [])"
| "spec_glob_match (p # ps) [] = (p = CHR ''*'' \<and> spec_glob_match ps [])"
| "spec_glob_match (p # ps) (c # cs) =
     (if p = CHR ''*'' then spec_glob_match ps (c # cs) \<or> spec_glob_match (p # ps) cs
      else (p = CHR ''?'' \<or> char_lower p = char_lower c) \<and> spec_glob_match ps cs)"

text \<open>
  A project for the concrete runs: \<^verbatim>\<open>requirements.txt\<close> with \<^verbatim>\<open>requests==2.31.0\<close>,
  \<^verbatim>\<open>requirements-dev.txt\<close> with \<^verbatim>\<open>pytest\<close>, and a \<^verbatim>\<open>Pipfile\<close>; no decoder for
  \<^verbatim>\<open>pyproject.toml\<close>; \<^verbatim>\<open>requests\<close> installed.
\<close>

definition example_project :: reporter where
  "example_project =
     \<lparr>project_root = ''/work/app'',
      files = (\<lambda>file_path.
         if file_path = (''/work/app'', ''requirements.txt'')
           then Some \<lparr>lines = [''requests==2.31.0'' @ [CHR 0x0A]], read_fails = False\<rparr>
         else if file_path = (''/work/app'', ''requirements-dev.txt'')
           then Some \<lparr>lines = [''pytest'' @ [CHR 0x0A]], read_fails = False\<rparr>
         else if file_path = (''/work/app'', ''Pipfile'')
           then Some \<lparr>lines = [''[packages]'' @ [CHR 0x0A], ''flask = 3'' @ [CHR 0x0A]],
                       read_fails = False\<rparr>
         else None),
      toml = None,
      pkg_resources = Some (\<lambda>package_name.
         if package_name = ''requests''
           then Some \<lparr>dist_version = Some ''2.31.0'',
                      dist_metadata = Some (''Name: requests'' @ [CHR 0x0A]
                        @ ''License: Apache 2.0'' @ [CHR 0x0A] @ ''Author: Kenneth Reitz'')\<rparr>
         else None),
      str_of_array = (\<lambda>xs. []),
      detected_project_name = ''app''\<rparr>"


text \<open>
  The entry of \<^verbatim>\<open>report["packages"]\<close> that the loop of \<^verbatim>\<open>generate_report\<close> builds for a
  dependency.
\<close>

definition package_entry :: "reporter \<Rightarrow> dependency_info \<Rightarrow> package" where
  "package_entry self dep =
     package_info.extend (get_package_info self (name dep))
       (package.fields (dep_type dep) (version_spec dep))"

text \<open>The example project with names in mixed case in \<^verbatim>\<open>requirements.txt\<close>.\<close>

definition example_mixed_case :: reporter where
  "example_mixed_case =
     example_project\<lparr>files := (\<lambda>file_path.
        if file_path = (''/work/app'', ''requirements.txt'')
          then Some \<lparr>lines = [''requests>=2.0'' @ [CHR 0x0A], ''Zope'' @ [CHR 0x0A],
                              ''attrs'' @ [CHR 0x0A]],
                     read_fails = False\<rparr>
        else None)\<rparr>"

text \<open>
  The file types that \<^verbatim>\<open>get_all_dependencies\<close> parses, and the parser it calls for
  an entry of the discovered files.
\<close>

definition parsed_type :: "string \<Rightarrow> bool" where
  "parsed_type file_type =
     (endswith file_type ''.txt'' \<or> file_type = ''setup.py'' \<or> file_type = ''pyproject.toml'')"

definition parse_manifest :: "reporter \<Rightarrow> string \<times> path \<Rightarrow> dependency_info list \<times> warning list"
  where
  "parse_manifest self entry =
     (if endswith (fst entry) ''.txt'' then parse_requirements_txt self (snd entry)
      else if fst entry = ''setup.py'' then parse_setup_py self (snd entry)
      else if fst entry = ''pyproject.toml'' then parse_pyproject_toml self (snd entry)
      else ([], []))"





text \<open>
  A plain pattern has none of the characters that the regular-expression engine reads
  specially, but for the star and the question mark; \<open>glob_item\<close> is what the engine
  makes of a character of such a pattern.
\<close>

definition glob_item :: "char \<Rightarrow> re_item" where
  "glob_item c = (if c = CHR ''*'' then Any_star else if c = CHR ''?'' then Any_char else Lit c)"

definition plain_pattern :: "string \<Rightarrow> bool" where
  "plain_pattern p = (\<forall>c \<in> set p. \<not> re_meta c \<and> c \<noteq> CHR ''.'' \<and> c \<noteq> CHR ''^'' \<and> c \<noteq> CHR ''$'')"

section \<open>Properties of the string operations\<close>

lemma py_in_iff: "py_in sub s \<longleftrightarrow> (\<exists>pre post. s = pre @ sub @ post)"
proof (induction s)
  case Nil
  then show ?case by auto
next
  case (Cons c cs)
  have start: "startswith (c # cs) sub \<longleftrightarrow> (\<exists>post. c # cs = sub @ post)"
    unfolding startswith_def
    by (metis append_eq_conv_conj append_take_drop_id)
  show ?case
  proof
    assume "py_in sub (c # cs)"
    then consider "startswith (c # cs) sub" | "py_in sub cs" by auto
    then show "\<exists>pre post. c # cs = pre @ sub @ post"
    proof cases
      case 1
      then obtain post where "c # cs = sub @ post" using start by blast
      then have "c # cs = [] @ sub @ post" by simp
      then show ?thesis by blast
    next
      case 2
      then obtain pre post where "cs = pre @ sub @ post" using Cons.IH by blast
      then have "c # cs = (c # pre) @ sub @ post" by simp
      then show ?thesis by blast
    qed
  next
    assume "\<exists>pre post. c # cs = pre @ sub @ post"
    then obtain pre post where eq: "c # cs = pre @ sub @ post" by blast
    show "py_in sub (c # cs)"
    proof (cases pre)
      case Nil
      with eq have "startswith (c # cs) sub" using start by auto
      then show ?thesis by simp
    next
      case (Cons p ps)
      with eq have "cs = ps @ sub @ post" by simp
      then have "py_in sub cs" using Cons.IH by blast
      then show ?thesis by simp
    qed
  qed
qed

section \<open>Properties of the attribution policy\<close>

text \<open>
  C5: \<^verbatim>\<open>_requires_attribution\<close> lowercases the text and answers false exactly when the
  lowercased text contains one of "public domain", "unlicense", "wtfpl"; the check of
  that list runs first, so it wins over the list of licenses that require attribution,
  and every other text (one that contains "mit", "bsd", "apache", "isc", "mpl",
  "mozilla", "creative commons" or "cc-by", or none of them) answers true. It answers
  true for "MIT License" and for the empty text, false for "Public Domain" and for
  "Unlicense".
\<close>

theorem requires_attribution_policy:
  "requires_attribution t =
     (\<not> (py_in ''public domain'' (lower t) \<or> py_in ''unlicense'' (lower t)
          \<or> py_in ''wtfpl'' (lower t)))
   \<and> requires_attribution ''MIT License'' = True
   \<and> requires_attribution [] = True
   \<and> requires_attribution ''Public Domain'' = False
   \<and> requires_attribution ''Unlicense'' = False"
  by (simp add: requires_attribution_def no_attribution_def attribution_required_def
      lower_def char_lower_def startswith_def Let_def)

section \<open>Properties of the exclude patterns\<close>

lemma replace_append: "replace (xs @ ys) old new = replace xs old new @ replace ys old new"
  by (simp add: replace_def)

lemma rewrite_pattern:
  "replace (replace p (CHR ''*'') ''.*'') (CHR ''?'') ''.'' = concat (map rewrite_char p)"
  by (induction p) (simp_all add: replace_def rewrite_char_def)

lemma rewrite_hd: "concat (map rewrite_char p) @ ''$'' = d # ds \<Longrightarrow> d \<noteq> CHR ''*''"
  by (cases p) (auto simp: rewrite_char_def split: if_splits)










section \<open>Properties of the filter\<close>





text \<open>
  C6: \<^verbatim>\<open>_matches_pattern\<close> against the match the specification describes. The pattern
  \<^verbatim>\<open>test*\<close> does not match \<^verbatim>\<open>pytest-mock\<close> and \<^verbatim>\<open>*mock*\<close> does, as claimed; but a dot
  in a pattern is not taken for itself: the pattern \<^verbatim>\<open>a.c\<close> matches the name \<^verbatim>\<open>abc\<close>,
  which the match of the specification rejects.
\<close>

theorem matches_pattern_dot_not_literal:
  "matches_pattern ''abc'' ''a.c'' = Some True
   \<and> spec_glob_match ''a.c'' ''abc'' = False
   \<and> matches_pattern ''pytest-mock'' ''test*'' = Some False
   \<and> matches_pattern ''pytest-mock'' ''*mock*'' = Some True"
  by code_simp

section \<open>Properties of the report\<close>

lemma metadata_line_name: "pkg_name (metadata_line info line) = pkg_name info"
  by (simp add: metadata_line_def)

lemma foldl_metadata_name: "pkg_name (foldl metadata_line info ls) = pkg_name info"
  by (induction ls arbitrary: info) (simp_all add: metadata_line_name)

lemma get_package_info_name: "pkg_name (get_package_info self n) = n"
  by (simp add: get_package_info_def Let_def foldl_metadata_name split: option.splits)

lemma get_package_info_attribution:
  "pkg_requires_attribution (get_package_info self n)
     = requires_attribution (pkg_license (get_package_info self n))"
  by (simp add: get_package_info_def Let_def)

lemma package_entry_fields:
  "pkg_name (package_entry self d) = name d"
  "pkg_dependency_type (package_entry self d) = dep_type d"
  "pkg_version_spec (package_entry self d) = version_spec d"
  "pkg_license (package_entry self d) = pkg_license (get_package_info self (name d))"
  "pkg_requires_attribution (package_entry self d)
     = pkg_requires_attribution (get_package_info self (name d))"
  "package_info.truncate (package_entry self d) = get_package_info self (name d)"
  by (simp_all add: package_entry_def package_info.extend_def package.fields_def
      package_info.truncate_def get_package_info_name)

lemma process_dependency_packages:
  "packages (process_dependency self r d) = packages r @ [package_entry self d]"
  by (simp add: process_dependency_def Let_def package_entry_def)

lemma process_dependency_summary:
  "summary (process_dependency self r d) =
     (summary r)\<lparr>
       runtime_packages := runtime_packages (summary r) + (if dep_type d = ''runtime'' then 1 else 0),
       dev_packages := dev_packages (summary r) + (if dep_type d = ''dev'' then 1 else 0),
       optional_packages := optional_packages (summary r) + (if dep_type d = ''optional'' then 1 else 0),
       requires_attribution_count := requires_attribution_count (summary r)
          + (if pkg_requires_attribution (package_entry self d) then 1 else 0),
       unknown_licenses := unknown_licenses (summary r)
          + (if pkg_license (package_entry self d) = ''unknown'' then 1 else 0)\<rparr>"
  by (simp add: process_dependency_def Let_def package_entry_def)


lemma foldl_process_packages:
  "packages (foldl (process_dependency self) r ds) = packages r @ map (package_entry self) ds"
  by (induction ds arbitrary: r) (simp_all add: process_dependency_packages)

lemma foldl_process_summary:
  "summary (foldl (process_dependency self) r ds) =
     (summary r)\<lparr>
       runtime_packages := runtime_packages (summary r)
          + length (filter (\<lambda>d. dep_type d = ''runtime'') ds),
       dev_packages := dev_packages (summary r) + length (filter (\<lambda>d. dep_type d = ''dev'') ds),
       optional_packages := optional_packages (summary r)
          + length (filter (\<lambda>d. dep_type d = ''optional'') ds),
       requires_attribution_count := requires_attribution_count (summary r)
          + length (filter (\<lambda>d. pkg_requires_attribution (package_entry self d)) ds),
       unknown_licenses := unknown_licenses (summary r)
          + length (filter (\<lambda>d. pkg_license (package_entry self d) = ''unknown'') ds)\<rparr>"
proof (induction ds arbitrary: r)
  case Nil
  then show ?case by simp
next
  case (Cons d ds)
  show ?case
    by (simp add: Cons.IH process_dependency_summary)
qed

lemma generate_report_Some:
  assumes "generate_report self a b c pats pn = Some r"
  obtains filtered where
    "filter_dependencies (fst (get_all_dependencies self)) a b c pats = Some filtered"
    "packages r = map (package_entry self) (sort_key (\<lambda>d. lower (name d)) filtered)"
    "summary r =
       \<lparr>total_packages = length filtered,
        runtime_packages = length (filter (\<lambda>d. dep_type d = ''runtime'')
           (sort_key (\<lambda>d. lower (name d)) filtered)),
        dev_packages = length (filter (\<lambda>d. dep_type d = ''dev'')
           (sort_key (\<lambda>d. lower (name d)) filtered)),
        optional_packages = length (filter (\<lambda>d. dep_type d = ''optional'')
           (sort_key (\<lambda>d. lower (name d)) filtered)),
        requires_attribution_count =
           length (filter (\<lambda>d. pkg_requires_attribution (package_entry self d))
             (sort_key (\<lambda>d. lower (name d)) filtered)),
        unknown_licenses =
           length (filter (\<lambda>d. pkg_license (package_entry self d) = ''unknown'')
             (sort_key (\<lambda>d. lower (name d)) filtered))\<rparr>"
proof (cases "filter_dependencies (fst (get_all_dependencies self)) a b c pats")
  case None
  with assms show ?thesis by (simp add: generate_report_def Let_def)
next
  case (Some filtered)
  with assms have "packages r = map (package_entry self) (sort_key (\<lambda>d. lower (name d)) filtered)"
    by (auto simp: generate_report_def Let_def foldl_process_packages)
  moreover from Some assms have "summary r =
       \<lparr>total_packages = length filtered,
        runtime_packages = length (filter (\<lambda>d. dep_type d = ''runtime'')
           (sort_key (\<lambda>d. lower (name d)) filtered)),
        dev_packages = length (filter (\<lambda>d. dep_type d = ''dev'')
           (sort_key (\<lambda>d. lower (name d)) filtered)),
        optional_packages = length (filter (\<lambda>d. dep_type d = ''optional'')
           (sort_key (\<lambda>d. lower (name d)) filtered)),
        requires_attribution_count =
           length (filter (\<lambda>d. pkg_requires_attribution (package_entry self d))
             (sort_key (\<lambda>d. lower (name d)) filtered)),
        unknown_licenses =
           length (filter (\<lambda>d. pkg_license (package_entry self d) = ''unknown'')
             (sort_key (\<lambda>d. lower (name d)) filtered))\<rparr>"
    by (auto simp: generate_report_def Let_def foldl_process_summary)
  ultimately show ?thesis using Some that by blast
qed

text \<open>
  C3: in every report that \<^verbatim>\<open>generate_report\<close> returns, \<open>total_packages\<close> is the number
  of entries of \<open>packages\<close>; the runtime, dev and optional counts are the numbers of
  entries with that dependency type; the attribution count is the number of entries whose
  \<open>requires_attribution\<close> is true; and \<open>unknown_licenses\<close> is the number of entries whose
  license is the string "unknown".
\<close>

theorem summary_counts_packages:
  assumes "generate_report self include_dev include_optional runtime_only exclude_patterns
             project_name = Some r"
  shows "total_packages (summary r) = length (packages r)
    \<and> runtime_packages (summary r)
        = length (filter (\<lambda>p. pkg_dependency_type p = ''runtime'') (packages r))
    \<and> dev_packages (summary r)
        = length (filter (\<lambda>p. pkg_dependency_type p = ''dev'') (packages r))
    \<and> optional_packages (summary r)
        = length (filter (\<lambda>p. pkg_dependency_type p = ''optional'') (packages r))
    \<and> requires_attribution_count (summary r)
        = length (filter pkg_requires_attribution (packages r))
    \<and> unknown_licenses (summary r)
        = length (filter (\<lambda>p. pkg_license p = ''unknown'') (packages r))"
proof -
  from assms obtain filtered where
    p: "packages r = map (package_entry self) (sort_key (\<lambda>d. lower (name d)) filtered)"
    and s: "summary r =
       \<lparr>total_packages = length filtered,
        runtime_packages = length (filter (\<lambda>d. dep_type d = ''runtime'')
           (sort_key (\<lambda>d. lower (name d)) filtered)),
        dev_packages = length (filter (\<lambda>d. dep_type d = ''dev'')
           (sort_key (\<lambda>d. lower (name d)) filtered)),
        optional_packages = length (filter (\<lambda>d. dep_type d = ''optional'')
           (sort_key (\<lambda>d. lower (name d)) filtered)),
        requires_attribution_count =
           length (filter (\<lambda>d. pkg_requires_attribution (package_entry self d))
             (sort_key (\<lambda>d. lower (name d)) filtered)),
        unknown_licenses =
           length (filter (\<lambda>d. pkg_license (package_entry self d) = ''unknown'')
             (sort_key (\<lambda>d. lower (name d)) filtered))\<rparr>"
    by (rule generate_report_Some)
  show ?thesis
    unfolding p s by (simp add: comp_def package_entry_fields)
qed

theorem summary_counts_packages_witness:
  "\<exists>r. generate_report example_project True False False None None = Some r
     \<and> total_packages (summary r) = 2 \<and> length (packages r) = 2
     \<and> runtime_packages (summary r) = 1
     \<and> length (filter (\<lambda>p. pkg_dependency_type p = ''runtime'') (packages r)) = 1
     \<and> dev_packages (summary r) = 1
     \<and> length (filter (\<lambda>p. pkg_dependency_type p = ''dev'') (packages r)) = 1
     \<and> requires_attribution_count (summary r) = 2
     \<and> length (filter pkg_requires_attribution (packages r)) = 2
     \<and> unknown_licenses (summary r) = 1
     \<and> length (filter (\<lambda>p. pkg_license p = ''unknown'') (packages r)) = 1"
proof -
  have "map_option summary (generate_report example_project True False False None None)
      = Some \<lparr>total_packages = 2, runtime_packages = 1, dev_packages = 1,
              optional_packages = 0, requires_attribution_count = 2, unknown_licenses = 1\<rparr>"
    by code_simp
  then obtain r where r: "generate_report example_project True False False None None = Some r"
    and s: "summary r = \<lparr>total_packages = 2, runtime_packages = 1, dev_packages = 1,
              optional_packages = 0, requires_attribution_count = 2, unknown_licenses = 1\<rparr>"
    by auto
  from summary_counts_packages [OF r] s r show ?thesis by simp
qed

text \<open>
  C10: in every report that \<^verbatim>\<open>generate_report\<close> returns, \<open>unknown_licenses\<close> is at most
  the attribution count: every entry whose license is "unknown" has
  \<open>requires_attribution\<close> true, because \<^verbatim>\<open>_requires_attribution\<close> answers true on
  "unknown".
\<close>

theorem unknown_licenses_le_requires_attribution:
  assumes "generate_report self include_dev include_optional runtime_only exclude_patterns
             project_name = Some r"
  shows "unknown_licenses (summary r) \<le> requires_attribution_count (summary r)
    \<and> (\<forall>p \<in> set (packages r). pkg_license p = ''unknown'' \<longrightarrow> pkg_requires_attribution p)
    \<and> requires_attribution ''unknown''"
proof -
  have unknown: "requires_attribution ''unknown''" by code_simp
  have entry: "pkg_license (package_entry self d) = ''unknown''
      \<Longrightarrow> pkg_requires_attribution (package_entry self d)" for d
    by (simp add: package_entry_fields get_package_info_attribution unknown)
  from assms obtain filtered where
    p: "packages r = map (package_entry self) (sort_key (\<lambda>d. lower (name d)) filtered)"
    and s: "summary r =
       \<lparr>total_packages = length filtered,
        runtime_packages = length (filter (\<lambda>d. dep_type d = ''runtime'')
           (sort_key (\<lambda>d. lower (name d)) filtered)),
        dev_packages = length (filter (\<lambda>d. dep_type d = ''dev'')
           (sort_key (\<lambda>d. lower (name d)) filtered)),
        optional_packages = length (filter (\<lambda>d. dep_type d = ''optional'')
           (sort_key (\<lambda>d. lower (name d)) filtered)),
        requires_attribution_count =
           length (filter (\<lambda>d. pkg_requires_attribution (package_entry self d))
             (sort_key (\<lambda>d. lower (name d)) filtered)),
        unknown_licenses =
           length (filter (\<lambda>d. pkg_license (package_entry self d) = ''unknown'')
             (sort_key (\<lambda>d. lower (name d)) filtered))\<rparr>"
    by (rule generate_report_Some)
  have le: "length (filter (\<lambda>d. pkg_license (package_entry self d) = ''unknown'') ds)
      \<le> length (filter (\<lambda>d. pkg_requires_attribution (package_entry self d)) ds)" for ds
    by (induction ds) (auto dest: entry)
  have each: "\<forall>p \<in> set (packages r). pkg_license p = ''unknown'' \<longrightarrow> pkg_requires_attribution p"
    unfolding p using entry by auto
  show ?thesis
    using le each unknown unfolding s by simp
qed

theorem unknown_licenses_le_requires_attribution_witness:
  "\<exists>r. generate_report example_project True False False None None = Some r
     \<and> unknown_licenses (summary r) = 1 \<and> requires_attribution_count (summary r) = 2
     \<and> unknown_licenses (summary r) \<le> requires_attribution_count (summary r)
     \<and> map pkg_license (packages r) = [''unknown'', ''Apache 2.0'']"
proof -
  have "map_option (\<lambda>r. (summary r, map pkg_license (packages r)))
          (generate_report example_project True False False None None)
      = Some (\<lparr>total_packages = 2, runtime_packages = 1, dev_packages = 1,
               optional_packages = 0, requires_attribution_count = 2, unknown_licenses = 1\<rparr>,
              [''unknown'', ''Apache 2.0''])"
    by code_simp
  then obtain r where r: "generate_report example_project True False False None None = Some r"
    and s: "summary r = \<lparr>total_packages = 2, runtime_packages = 1, dev_packages = 1,
              optional_packages = 0, requires_attribution_count = 2, unknown_licenses = 1\<rparr>"
    and l: "map pkg_license (packages r) = [''unknown'', ''Apache 2.0'']"
    by auto
  from unknown_licenses_le_requires_attribution [OF r] s l r show ?thesis by simp
qed

text \<open>
  C8: in every report that \<^verbatim>\<open>generate_report\<close> returns, the entries of \<open>packages\<close> are
  in the order of their lowercased names (each entry's lowercased name is at most the next
  one's), and the entries are those of the filtered dependencies, sorted: each carries
  the dependency's name, group and version constraint together with the metadata looked
  up for that name.
\<close>

theorem packages_sorted_and_merged:
  assumes "generate_report self include_dev include_optional runtime_only exclude_patterns
             project_name = Some r"
  shows "sorted (map (\<lambda>p. lower (pkg_name p)) (packages r))
    \<and> (\<forall>i. Suc i < length (packages r) \<longrightarrow>
          lower (pkg_name (packages r ! i)) \<le> lower (pkg_name (packages r ! Suc i)))
    \<and> (\<exists>filtered.
          filter_dependencies (fst (get_all_dependencies self)) include_dev include_optional
            runtime_only exclude_patterns = Some filtered
          \<and> packages r = map (package_entry self) (sort_key (\<lambda>d. lower (name d)) filtered)
          \<and> mset (sort_key (\<lambda>d. lower (name d)) filtered) = mset filtered)
    \<and> (\<forall>d. pkg_name (package_entry self d) = name d
          \<and> pkg_dependency_type (package_entry self d) = dep_type d
          \<and> pkg_version_spec (package_entry self d) = version_spec d
          \<and> package_info.truncate (package_entry self d) = get_package_info self (name d))"
proof -
  from assms obtain filtered where
    f: "filter_dependencies (fst (get_all_dependencies self)) include_dev include_optional
            runtime_only exclude_patterns = Some filtered"
    and p: "packages r = map (package_entry self) (sort_key (\<lambda>d. lower (name d)) filtered)"
    by (rule generate_report_Some)
  have names: "map (\<lambda>p. lower (pkg_name p)) (packages r)
      = map (\<lambda>d. lower (name d)) (sort_key (\<lambda>d. lower (name d)) filtered)"
    unfolding p by (simp add: package_entry_fields comp_def)
  have srt: "sorted (map (\<lambda>p. lower (pkg_name p)) (packages r))"
    unfolding names by simp
  have adj: "\<forall>i. Suc i < length (packages r) \<longrightarrow>
          lower (pkg_name (packages r ! i)) \<le> lower (pkg_name (packages r ! Suc i))"
  proof (intro allI impI)
    fix i assume i: "Suc i < length (packages r)"
    then have "map (\<lambda>p. lower (pkg_name p)) (packages r) ! i
        \<le> map (\<lambda>p. lower (pkg_name p)) (packages r) ! Suc i"
      using srt by (simp add: sorted_iff_nth_Suc del: nth_map)
    with i show "lower (pkg_name (packages r ! i)) \<le> lower (pkg_name (packages r ! Suc i))"
      by simp
  qed
  show ?thesis
    using srt adj f p by (simp add: package_entry_fields)
qed

theorem packages_sorted_and_merged_witness:
  "\<exists>r. generate_report example_mixed_case False False False None None = Some r
     \<and> map pkg_name (packages r) = [''attrs'', ''requests'', ''Zope'']
     \<and> map pkg_version_spec (packages r) = [[], ''>=2.0'', []]
     \<and> map pkg_version (packages r) = [''unknown'', ''2.31.0'', ''unknown'']
     \<and> sorted (map (\<lambda>p. lower (pkg_name p)) (packages r))"
proof -
  have "map_option (\<lambda>r. (map pkg_name (packages r), map pkg_version_spec (packages r),
                         map pkg_version (packages r)))
          (generate_report example_mixed_case False False False None None)
      = Some ([''attrs'', ''requests'', ''Zope''], [[], ''>=2.0'', []],
              [''unknown'', ''2.31.0'', ''unknown''])"
    by code_simp
  then obtain r where r: "generate_report example_mixed_case False False False None None = Some r"
    and n: "map pkg_name (packages r) = [''attrs'', ''requests'', ''Zope'']"
    and v: "map pkg_version_spec (packages r) = [[], ''>=2.0'', []]"
    and w: "map pkg_version (packages r) = [''unknown'', ''2.31.0'', ''unknown'']"
    by auto
  have "sorted (map (\<lambda>p. lower (pkg_name p)) (packages r))"
    using packages_sorted_and_merged [OF r] by (rule conjunct1)
  with n v w r show ?thesis by simp
qed

section \<open>Properties of the parsers and of \<^verbatim>\<open>get_all_dependencies\<close>\<close>

lemma all_deps_loop_step:
  "all_deps_loop self (entry # rest) (all_deps, printed) =
     all_deps_loop self rest
       (all_deps @ fst (parse_manifest self entry), printed @ snd (parse_manifest self entry))"
  by (cases entry) (simp add: parse_manifest_def split: prod.splits)

lemma all_deps_loop_concat:
  "all_deps_loop self entries (all_deps, printed) =
     (all_deps @ concat (map (\<lambda>e. fst (parse_manifest self e)) entries),
      printed @ concat (map (\<lambda>e. snd (parse_manifest self e)) entries))"
proof (induction entries arbitrary: all_deps printed)
  case Nil
  then show ?case by simp
next
  case (Cons entry rest)
  show ?case
    unfolding all_deps_loop_step Cons.IH by simp
qed

lemma get_all_dependencies_concat:
  "get_all_dependencies self =
     (concat (map (\<lambda>e. fst (parse_manifest self e)) (discover_dependency_files self)),
      concat (map (\<lambda>e. snd (parse_manifest self e)) (discover_dependency_files self)))"
  by (simp add: get_all_dependencies_def all_deps_loop_concat)

lemma poetry_version_spec_files [simp]:
  "poetry_version_spec (self\<lparr>files := fs\<rparr>) v = poetry_version_spec self v"
  by (cases v) simp_all

lemma add_poetry_files [simp]:
  "add_poetry (self\<lparr>files := fs\<rparr>) skip kvs dtype deps = add_poetry self skip kvs dtype deps"
  by (induction kvs arbitrary: deps) (auto)

lemma add_poetry_table_files [simp]:
  "add_poetry_table (self\<lparr>files := fs\<rparr>) skip poetry key dtype
     = add_poetry_table self skip poetry key dtype"
  by (rule ext) (simp add: add_poetry_table_def split: sum.splits bool.splits)

lemma poetry_tables_files [simp]:
  "poetry_tables (self\<lparr>files := fs\<rparr>) data = poetry_tables self data"
  by (rule ext) (simp add: poetry_tables_def split: sum.splits bool.splits)

lemma pyproject_data_files [simp]:
  "pyproject_data (self\<lparr>files := fs\<rparr>) data = pyproject_data self data"
  by (simp add: pyproject_data_def)

lemma parse_manifest_files:
  "fs (snd entry) = files self (snd entry) \<Longrightarrow>
   parse_manifest (self\<lparr>files := fs\<rparr>) entry = parse_manifest self entry"
  by (simp add: parse_manifest_def parse_requirements_txt_def parse_setup_py_def
      parse_pyproject_toml_def split: option.splits)

lemma parse_manifest_unparsed:
  "\<not> parsed_type (fst entry) \<Longrightarrow> parse_manifest self entry = ([], [])"
  by (simp add: parse_manifest_def parsed_type_def)


lemma unsupported_not_parsed:
  "nm \<in> set [''setup.cfg'', ''Pipfile'', ''environment.yml'', ''environment.yaml'', ''conda.yml'']
   \<Longrightarrow> \<not> parsed_type nm"
  by (auto simp: parsed_type_def endswith_def startswith_def)

lemma concat_map_parsed:
  "concat (map (\<lambda>e. fst (parse_manifest self e)) entries)
     = concat (map (\<lambda>e. fst (parse_manifest self e)) (filter (\<lambda>e. parsed_type (fst e)) entries))"
  "concat (map (\<lambda>e. snd (parse_manifest self e)) entries)
     = concat (map (\<lambda>e. snd (parse_manifest self e)) (filter (\<lambda>e. parsed_type (fst e)) entries))"
  by (induction entries) (simp_all add: parse_manifest_unparsed)

lemma discover_parsed:
  assumes "\<forall>nm. nm \<notin> set [''setup.cfg'', ''Pipfile'', ''environment.yml'', ''environment.yaml'',
                          ''conda.yml'']
             \<longrightarrow> fs (project_root self, nm) = files self (project_root self, nm)"
  shows "filter (\<lambda>e. parsed_type (fst e)) (discover_dependency_files (self\<lparr>files := fs\<rparr>))
       = filter (\<lambda>e. parsed_type (fst e)) (discover_dependency_files self)"
proof -
  have "parsed_type nm \<Longrightarrow> fs (project_root self, nm) = files self (project_root self, nm)" for nm
    using assms unsupported_not_parsed by blast
  then show ?thesis
    unfolding discover_dependency_files_def filter_filter
    by (intro filter_cong) auto
qed

lemma discover_entries:
  "e \<in> set (discover_dependency_files self) \<Longrightarrow> snd e = (project_root self, fst e)"
  by (auto simp: discover_dependency_files_def)

lemma get_all_dependencies_parsed:
  "get_all_dependencies self =
     (concat (map (\<lambda>e. fst (parse_manifest self e))
        (filter (\<lambda>e. parsed_type (fst e)) (discover_dependency_files self))),
      concat (map (\<lambda>e. snd (parse_manifest self e))
        (filter (\<lambda>e. parsed_type (fst e)) (discover_dependency_files self))))"
  unfolding get_all_dependencies_concat
  using concat_map_parsed [of self "discover_dependency_files self"] by simp

lemma get_all_dependencies_files:
  assumes "\<forall>nm. nm \<notin> set [''setup.cfg'', ''Pipfile'', ''environment.yml'', ''environment.yaml'',
                          ''conda.yml'']
             \<longrightarrow> fs (project_root self, nm) = files self (project_root self, nm)"
  shows "get_all_dependencies (self\<lparr>files := fs\<rparr>) = get_all_dependencies self"
proof -
  let ?P = "\<lambda>e :: string \<times> path. parsed_type (fst e)"
  have same: "parse_manifest (self\<lparr>files := fs\<rparr>) e = parse_manifest self e"
    if "e \<in> set (filter ?P (discover_dependency_files self))" for e
  proof -
    from that have "snd e = (project_root self, fst e)" and "parsed_type (fst e)"
      using discover_entries by auto
    then have "fs (snd e) = files self (snd e)"
      using assms unsupported_not_parsed by metis
    then show ?thesis by (rule parse_manifest_files)
  qed
  have 1: "map (\<lambda>e. fst (parse_manifest (self\<lparr>files := fs\<rparr>) e))
             (filter ?P (discover_dependency_files self))
         = map (\<lambda>e. fst (parse_manifest self e)) (filter ?P (discover_dependency_files self))"
    by (rule map_cong) (simp_all only: same)
  have 2: "map (\<lambda>e. snd (parse_manifest (self\<lparr>files := fs\<rparr>) e))
             (filter ?P (discover_dependency_files self))
         = map (\<lambda>e. snd (parse_manifest self e)) (filter ?P (discover_dependency_files self))"
    by (rule map_cong) (simp_all only: same)
  show ?thesis
    unfolding get_all_dependencies_parsed [of "self\<lparr>files := fs\<rparr>"]
      get_all_dependencies_parsed [of self] discover_parsed [OF assms] 1 2 ..
qed

lemma get_package_info_files [simp]:
  "get_package_info (self\<lparr>files := fs\<rparr>) n = get_package_info self n"
  by (simp add: get_package_info_def)

lemma package_entry_files [simp]:
  "package_entry (self\<lparr>files := fs\<rparr>) = package_entry self"
  by (rule ext) (simp add: package_entry_def)

lemma process_dependency_dependency_files:
  "dependency_files (process_dependency self r d) = dependency_files r"
  by (simp add: process_dependency_def Let_def)

lemma foldl_process_dependency_files:
  "dependency_files (foldl (process_dependency self) r ds) = dependency_files r"
  by (induction ds arbitrary: r) (simp_all add: process_dependency_dependency_files)

lemma generate_report_packages:
  "map_option packages (generate_report self a b c pats pn)
     = map_option (\<lambda>filtered. map (package_entry self) (sort_key (\<lambda>d. lower (name d)) filtered))
         (filter_dependencies (fst (get_all_dependencies self)) a b c pats)"
  by (simp add: generate_report_def Let_def foldl_process_packages split: option.splits)

lemma generate_report_summary:
  "map_option summary (generate_report self a b c pats pn)
     = map_option (\<lambda>filtered.
         \<lparr>total_packages = length filtered,
          runtime_packages = length (filter (\<lambda>d. dep_type d = ''runtime'')
             (sort_key (\<lambda>d. lower (name d)) filtered)),
          dev_packages = length (filter (\<lambda>d. dep_type d = ''dev'')
             (sort_key (\<lambda>d. lower (name d)) filtered)),
          optional_packages = length (filter (\<lambda>d. dep_type d = ''optional'')
             (sort_key (\<lambda>d. lower (name d)) filtered)),
          requires_attribution_count =
             length (filter (\<lambda>d. pkg_requires_attribution (package_entry self d))
               (sort_key (\<lambda>d. lower (name d)) filtered)),
          unknown_licenses =
             length (filter (\<lambda>d. pkg_license (package_entry self d) = ''unknown'')
               (sort_key (\<lambda>d. lower (name d)) filtered))\<rparr>)
         (filter_dependencies (fst (get_all_dependencies self)) a b c pats)"
  by (simp add: generate_report_def Let_def foldl_process_summary split: option.splits)

lemma generate_report_dependency_files:
  "generate_report self a b c pats pn = Some r \<Longrightarrow>
   dependency_files r = map snd (discover_dependency_files self)"
  by (auto simp: generate_report_def Let_def foldl_process_dependency_files
      split: option.splits)

lemma discovered_when_exists:
  "nm \<in> set candidates \<Longrightarrow> files self (project_root self, nm) \<noteq> None \<Longrightarrow>
   (project_root self, nm) \<in> set (map snd (discover_dependency_files self))"
  by (force simp: discover_dependency_files_def)

lemma unsupported_candidates:
  "nm \<in> set [''setup.cfg'', ''Pipfile'', ''environment.yml'', ''environment.yaml'', ''conda.yml'']
   \<Longrightarrow> nm \<in> set candidates"
  by (auto simp: candidates_def)

text \<open>
  C9: dependencies declared only in \<^verbatim>\<open>setup.cfg\<close>, \<^verbatim>\<open>Pipfile\<close>, \<^verbatim>\<open>environment.yml\<close>,
  \<^verbatim>\<open>environment.yaml\<close> or \<^verbatim>\<open>conda.yml\<close> never reach a report:
  \<^verbatim>\<open>get_all_dependencies\<close> skips a discovered file of these names, so its result, and
  with it the packages and the summary of every report, is the same for two file systems
  that differ only in these five files; yet the path of such a file, when it exists, is
  listed in the report's \<open>dependency_files\<close>.
\<close>

theorem unsupported_manifests_ignored:
  "((\<forall>nm. nm \<notin> set [''setup.cfg'', ''Pipfile'', ''environment.yml'', ''environment.yaml'',
                       ''conda.yml'']
          \<longrightarrow> fs (project_root self, nm) = files self (project_root self, nm))
     \<longrightarrow> get_all_dependencies (self\<lparr>files := fs\<rparr>) = get_all_dependencies self
        \<and> map_option packages
            (generate_report (self\<lparr>files := fs\<rparr>) include_dev include_optional runtime_only
               exclude_patterns project_name)
          = map_option packages
              (generate_report self include_dev include_optional runtime_only
                 exclude_patterns project_name)
        \<and> map_option summary
            (generate_report (self\<lparr>files := fs\<rparr>) include_dev include_optional runtime_only
               exclude_patterns project_name)
          = map_option summary
              (generate_report self include_dev include_optional runtime_only
                 exclude_patterns project_name))
   \<and> (\<forall>nm \<in> set [''setup.cfg'', ''Pipfile'', ''environment.yml'', ''environment.yaml'',
                    ''conda.yml''].
        \<forall>r. files self (project_root self, nm) \<noteq> None
             \<and> generate_report self include_dev include_optional runtime_only
                  exclude_patterns project_name = Some r
          \<longrightarrow> (project_root self, nm) \<in> set (dependency_files r))
   \<and> (\<forall>entry. fst entry \<in> set [''setup.cfg'', ''Pipfile'', ''environment.yml'',
                                ''environment.yaml'', ''conda.yml'']
          \<longrightarrow> all_deps_loop self (entry # rest) acc = all_deps_loop self rest acc)"
proof (intro conjI impI ballI allI)
  assume a: "\<forall>nm. nm \<notin> set [''setup.cfg'', ''Pipfile'', ''environment.yml'', ''environment.yaml'',
                       ''conda.yml'']
          \<longrightarrow> fs (project_root self, nm) = files self (project_root self, nm)"
  then show g: "get_all_dependencies (self\<lparr>files := fs\<rparr>) = get_all_dependencies self"
    by (rule get_all_dependencies_files)
  show "map_option packages
            (generate_report (self\<lparr>files := fs\<rparr>) include_dev include_optional runtime_only
               exclude_patterns project_name)
          = map_option packages
              (generate_report self include_dev include_optional runtime_only
                 exclude_patterns project_name)"
    unfolding generate_report_packages g by simp
  show "map_option summary
            (generate_report (self\<lparr>files := fs\<rparr>) include_dev include_optional runtime_only
               exclude_patterns project_name)
          = map_option summary
              (generate_report self include_dev include_optional runtime_only
                 exclude_patterns project_name)"
    unfolding generate_report_summary g by simp
next
  fix nm r
  assume nm: "nm \<in> set [''setup.cfg'', ''Pipfile'', ''environment.yml'', ''environment.yaml'',
                    ''conda.yml'']"
    and "files self (project_root self, nm) \<noteq> None
             \<and> generate_report self include_dev include_optional runtime_only
                  exclude_patterns project_name = Some r"
  then have "nm \<in> set candidates" and "files self (project_root self, nm) \<noteq> None"
    and "dependency_files r = map snd (discover_dependency_files self)"
    using unsupported_candidates generate_report_dependency_files by blast+
  then show "(project_root self, nm) \<in> set (dependency_files r)"
    using discovered_when_exists by simp
next
  fix entry :: "string \<times> path"
  assume "fst entry \<in> set [''setup.cfg'', ''Pipfile'', ''environment.yml'',
                                ''environment.yaml'', ''conda.yml'']"
  then have "parse_manifest self entry = ([], [])"
    using unsupported_not_parsed parse_manifest_unparsed by blast
  then show "all_deps_loop self (entry # rest) acc = all_deps_loop self rest acc"
    by (cases acc) (simp add: all_deps_loop_step)
qed

theorem unsupported_manifests_ignored_witness:
  "get_all_dependencies
      (example_project\<lparr>files := (files example_project)((''/work/app'', ''Pipfile'') := None)\<rparr>)
     = get_all_dependencies example_project
   \<and> (\<exists>r. generate_report example_project False False False None None = Some r
          \<and> (''/work/app'', ''Pipfile'') \<in> set (dependency_files r)
          \<and> map pkg_name (packages r) = [''requests''])"
proof -
  note inst = unsupported_manifests_ignored
    [where self = example_project
       and fs = "(files example_project)((''/work/app'', ''Pipfile'') := None)"
       and include_dev = False and include_optional = False and runtime_only = False
       and exclude_patterns = None and project_name = None]
  have root: "project_root example_project = ''/work/app''"
    by (simp add: example_project_def)
  have same: "\<forall>nm. nm \<notin> set [''setup.cfg'', ''Pipfile'', ''environment.yml'', ''environment.yaml'',
                       ''conda.yml'']
          \<longrightarrow> ((files example_project)((''/work/app'', ''Pipfile'') := None))
                (project_root example_project, nm)
              = files example_project (project_root example_project, nm)"
    by (simp add: root)
  have 1: "get_all_dependencies
      (example_project\<lparr>files := (files example_project)((''/work/app'', ''Pipfile'') := None)\<rparr>)
     = get_all_dependencies example_project"
    using inst same by blast
  have "map_option (\<lambda>r. map pkg_name (packages r))
          (generate_report example_project False False False None None) = Some [''requests'']"
    by code_simp
  then obtain r where r: "generate_report example_project False False False None None = Some r"
    and n: "map pkg_name (packages r) = [''requests'']"
    by auto
  have ex: "files example_project (project_root example_project, ''Pipfile'') \<noteq> None"
    by (simp add: example_project_def)
  have "(project_root example_project, ''Pipfile'') \<in> set (dependency_files r)"
    using inst ex r by auto
  then have 2: "(''/work/app'', ''Pipfile'') \<in> set (dependency_files r)"
    by (simp add: root)
  from 1 2 r n show ?thesis by simp
qed





section \<open>Properties of the split of a spec string\<close>












section \<open>The exclude patterns on plain patterns\<close>

text \<open>
  On a pattern without a dot, an anchor or one of \<^verbatim>\<open>\ [ ] ( ) { } + |\<close>, and a name
  without a line feed, \<^verbatim>\<open>_matches_pattern\<close> is the match that the specification
  describes.
\<close>

lemma re_parse_plain:
  "plain_pattern p \<Longrightarrow>
   re_parse (concat (map rewrite_char p) @ ''$'') = Some (map glob_item p @ [Eol])"
proof (induction p)
  case Nil
  then show ?case by (simp add: re_special_def re_meta_def)
next
  case (Cons c p)
  define rest where "rest = concat (map rewrite_char p) @ ''$''"
  from Cons have IH: "re_parse rest = Some (map glob_item p @ [Eol])"
    and c: "\<not> re_meta c" "c \<noteq> CHR ''.''" "c \<noteq> CHR ''^''" "c \<noteq> CHR ''$''"
    by (simp_all add: rest_def plain_pattern_def)
  obtain d ds where rest: "rest = d # ds" and d: "d \<noteq> CHR ''*''"
    using rewrite_hd [of p] by (cases rest) (auto simp: rest_def)
  have star: "re_parse (''.*'' @ rest) = map_option (Cons Any_star) (re_parse rest)"
    by simp
  have dot: "re_parse (''.'' @ rest) = map_option (Cons Any_char) (re_parse rest)"
    using d by (simp add: rest)
  have goal: "re_parse (rewrite_char c @ rest) = Some (glob_item c # map glob_item p @ [Eol])"
  proof (cases "c = CHR ''*''")
    case True
    then show ?thesis using IH star by (simp add: rewrite_char_def glob_item_def)
  next
    case False
    note not_star = this
    show ?thesis
    proof (cases "c = CHR ''?''")
      case True
      then have "rewrite_char c = ''.''" "glob_item c = Any_char"
        by (auto simp: rewrite_char_def glob_item_def)
      then show ?thesis using IH dot by simp
    next
      case False
      then have "rewrite_char c = [c]" "glob_item c = Lit c"
        using not_star by (simp_all add: rewrite_char_def glob_item_def)
      moreover have "re_parse (c # rest) = Some (Lit c # map glob_item p @ [Eol])"
        using False not_star c IH by (simp add: re_special_def)
      ultimately show ?thesis by simp
    qed
  qed
  then show ?case by (simp add: rest_def)
qed

lemma match_plain:
  "plain_pattern p \<Longrightarrow> CHR 0x0A \<notin> set n \<Longrightarrow>
   re_match_items (map glob_item p @ [Eol]) b n = spec_glob_match p n"
proof (induction p n arbitrary: b rule: spec_glob_match.induct)
  case (1 s)
  then show ?case by (cases s) auto
next
  case (2 p ps)
  then show ?case by (auto simp: glob_item_def plain_pattern_def)
next
  case (3 p ps c cs)
  then show ?case by (auto simp: glob_item_def plain_pattern_def)
qed

lemma matches_pattern_plain:
  "plain_pattern p \<Longrightarrow> CHR 0x0A \<notin> set n \<Longrightarrow>
   matches_pattern n p = Some (spec_glob_match p n)"
  by (simp add: matches_pattern_def rewrite_pattern Let_def re_parse_plain match_plain)

end
